theory Spec2Isabelle
  imports Main "HOL-Library.Multiset"
begin

section \<open>The README generator \<open>resources/generate/main.ts\<close>\<close>

text \<open>
  The script is modelled from line 40 on: the three documents have been read, parsed
  and validated (lines 19 to 38 are calls into external libraries), and
  \<open>portsData\<close>, \<open>categoriesData\<close> and \<open>userstylesData\<close> hold their results.

  Conventions of the model.
  \<^item> A JavaScript object used as a dictionary is the list of its own entries in
    property order, the order \<open>Object.entries\<close> returns.
  \<^item> An optional property is an \<open>option\<close>; \<open>None\<close> is \<open>undefined\<close>.
  \<^item> A thrown exception is the left summand of a sum type.
  \<^item> The external functions (\<open>updateReadme\<close>, \<open>String.prototype.localeCompare\<close>)
    are parameters.
  \<^item> The objects that the script builds with \<open>{}\<close> are ordinary objects: a read
    \<open>obj[k]\<close> of a key that is not an own property finds the member of
    \<open>Object.prototype\<close> of that name, if there is one, and an assignment to the key
    \<open>__proto__\<close> runs the inherited setter instead of creating a property.
\<close>

subsection \<open>Data model\<close>

text \<open>
  The field types are declared in \<open>@/types/mod.ts\<close>, generated from the JSON schemas;
  neither is part of the sources at hand. The fields the script reads are modelled
  with the types it uses them at; \<open>platform\<close> and \<open>readme\<close> (named by the type of
  the buckets) and all remaining fields (\<open>other\<close>) are opaque values of type \<open>'v\<close>.
\<close>

record Category =
  key :: string
  cname :: string  \<comment> \<open>the property \<open>name\<close> of a category\<close>
  emoji :: string

record Showcase =
  title :: string
  link :: string
  description :: string

text \<open>
  \<open>MergeExclusive<PortsSchema.Port, UserStylesSchema.Userstyle>\<close>: one shape for both
  catalogs, in which a property that an entry does not have is \<open>undefined\<close>.
  \<open>supports\<close> maps a key to a record of which the script reads \<open>name\<close> only; it is
  kept as the list of (key, name).
\<close>

record 'v Port =
  name :: string
  categories :: "string list"
  url :: "string option"
  "alias" :: "string option"
  supports :: "(string \<times> string) list option"
  platform :: "'v option"
  readme :: "'v option"
  other :: "(string \<times> 'v) list"

datatype PortType = port | userstyle

text \<open>\<open>MappedPort\<close> (line 44): the merged shape with the discriminator \<open>type\<close>.\<close>

record 'v MappedPort = "'v Port" +
  type :: PortType

record 'v PortsSchema =
  ports :: "(string \<times> 'v Port) list option"
  showcases :: "Showcase list option"

record 'v UserstylesSchema =
  userstyles :: "(string \<times> 'v Port) list option"

text \<open>
  What the script can throw: an \<open>Error\<close> with a message, or the \<open>TypeError\<close> of a call
  of something that is not a function (its message is left out).
\<close>

datatype error = Error string | TypeError

subsection \<open>JavaScript objects as ordered dictionaries\<close>

text \<open>
  An ordinary object lists its own string keys with the array indices first, in
  ascending numeric order, and then the other keys in the order of their creation.
  An array index is the canonical decimal form of an integer below \<open>2^32 - 1 = 4294967295\<close>.
\<close>

definition is_digit :: "char \<Rightarrow> bool" where
  "is_digit c = (48 \<le> (of_char c :: int) \<and> (of_char c :: int) \<le> 57)"

definition index_value :: "string \<Rightarrow> int" where
  "index_value s = foldl (\<lambda>n c. 10 * n + ((of_char c :: int) - 48)) 0 s"

definition is_array_index :: "string \<Rightarrow> bool" where
  "is_array_index s =
     (s \<noteq> [] \<and> list_all is_digit s \<and> (s = ''0'' \<or> hd s \<noteq> CHR ''0'')
      \<and> index_value s < 4294967295)"

definition key_before :: "string \<Rightarrow> string \<Rightarrow> bool" where
  "key_before k k' =
     (is_array_index k \<and> (\<not> is_array_index k' \<or> index_value k < index_value k'))"

text \<open>Creating a property: it takes its place in the property order.\<close>

fun obj_insert :: "string \<Rightarrow> 'a \<Rightarrow> (string \<times> 'a) list \<Rightarrow> (string \<times> 'a) list" where
  "obj_insert k v [] = [(k, v)]"
| "obj_insert k v ((k', v') # kvs) =
     (if key_before k k' then (k, v) # (k', v') # kvs
      else (k', v') # obj_insert k v kvs)"

text \<open>Overwriting a property: it keeps its place.\<close>

fun obj_overwrite :: "string \<Rightarrow> 'a \<Rightarrow> (string \<times> 'a) list \<Rightarrow> (string \<times> 'a) list" where
  "obj_overwrite k v [] = []"
| "obj_overwrite k v ((k', v') # kvs) =
     (if k = k' then (k, v) # kvs else (k', v') # obj_overwrite k v kvs)"

text \<open>Defining the own property \<open>k\<close> with the value \<open>v\<close>.\<close>

definition obj_set :: "string \<Rightarrow> 'a \<Rightarrow> (string \<times> 'a) list \<Rightarrow> (string \<times> 'a) list" where
  "obj_set k v obj =
     (if k \<in> set (map fst obj) then obj_overwrite k v obj else obj_insert k v obj)"

text \<open>
  The names of the members of \<open>Object.prototype\<close>. All are functions but \<open>__proto__\<close>,
  an accessor: read, it gives the prototype of the object, here \<open>Object.prototype\<close>
  itself; assigned to, it replaces the prototype of the object.
\<close>

definition Object_prototype_keys :: "string list" where
  "Object_prototype_keys =
     [''constructor'', ''__defineGetter__'', ''__defineSetter__'', ''hasOwnProperty'',
      ''__lookupGetter__'', ''__lookupSetter__'', ''isPrototypeOf'', ''propertyIsEnumerable'',
      ''toString'', ''valueOf'', ''__proto__'', ''toLocaleString'']"

text \<open>
  The property \<open>length\<close> of the inherited member: the number of parameters of the
  function, and \<open>undefined\<close> for the object that \<open>__proto__\<close> gives.
\<close>

definition inherited_length :: "string \<Rightarrow> nat option" where
  "inherited_length k =
     (if k = ''__proto__'' then None
      else if k \<in> set [''toString'', ''toLocaleString'', ''valueOf''] then Some 0
      else if k \<in> set [''__defineGetter__'', ''__defineSetter__''] then Some 2
      else Some 1)"

text \<open>
  The read \<open>obj[k]\<close>: the own property, or else the inherited member, or else
  \<open>undefined\<close>.
\<close>

datatype 'a property = Own 'a | Inherited string | Undefined

definition obj_get :: "(string \<times> 'a) list \<Rightarrow> string \<Rightarrow> 'a property" where
  "obj_get obj k =
     (case map_of obj k of
        Some v \<Rightarrow> Own v
      | None \<Rightarrow> if k \<in> set Object_prototype_keys then Inherited k else Undefined)"

text \<open>
  The assignment \<open>obj[k] = v\<close> of an object \<open>v\<close>. No member of \<open>Object.prototype\<close> is
  read-only, so the assignment defines an own property, except for \<open>__proto__\<close>: there
  the setter makes \<open>v\<close> the prototype of \<open>obj\<close> and the own properties stay as they are.
\<close>

definition obj_assign :: "string \<Rightarrow> 'a \<Rightarrow> (string \<times> 'a) list \<Rightarrow> (string \<times> 'a) list" where
  "obj_assign k v obj = (if k = ''__proto__'' then obj else obj_set k v obj)"

text \<open>
  The spread \<open>{...a, ...b}\<close>: a fresh object on which the entries of \<open>a\<close>, then of \<open>b\<close>,
  are defined as own properties.
\<close>

definition spread2 :: "(string \<times> 'a) list \<Rightarrow> (string \<times> 'a) list \<Rightarrow> (string \<times> 'a) list" where
  "spread2 a b = foldl (\<lambda>obj (k, v). obj_set k v obj) [] (a @ b)"

subsection \<open>The merger (lines 50 to 70)\<close>

text \<open>\<open>{...port, type: t}\<close>\<close>

definition with_type :: "PortType \<Rightarrow> 'v Port \<Rightarrow> 'v MappedPort" where
  "with_type t p =
     \<lparr> name = name p, categories = categories p, url = url p, alias = alias p,
       supports = supports p, platform = platform p, readme = readme p,
       other = other p, type = t \<rparr>"

text \<open>One of the two \<open>reduce\<close> calls: \<open>acc[slug] = {...entry, type: t}\<close> from \<open>{}\<close>.\<close>

definition label :: "PortType \<Rightarrow> (string \<times> 'v Port) list \<Rightarrow> (string \<times> 'v MappedPort) list" where
  "label t entries = foldl (\<lambda>acc (slug, p). obj_assign slug (with_type t p) acc) [] entries"

text \<open>The constant \<open>ports\<close> of line 51.\<close>

definition merged_ports ::
  "(string \<times> 'v Port) list \<Rightarrow> (string \<times> 'v Port) list \<Rightarrow> (string \<times> 'v MappedPort) list" where
  "merged_ports ps us = spread2 (label port ps) (label userstyle us)"

definition portSlugs :: "(string \<times> 'v MappedPort) list \<Rightarrow> string list" where
  "portSlugs mps = map fst mps"

subsection \<open>The grouper (lines 72 to 120)\<close>

text \<open>
  Truthiness of a value of type \<open>string | undefined\<close>: \<open>undefined\<close> and the empty
  string are falsy.
\<close>

definition truthy :: "string option \<Rightarrow> bool" where
  "truthy x = (case x of None \<Rightarrow> False | Some s \<Rightarrow> s \<noteq> [])"

text \<open>A template literal prints an \<open>undefined\<close> value as the word.\<close>

definition to_string :: "string option \<Rightarrow> string" where
  "to_string x = (case x of None \<Rightarrow> ''undefined'' | Some s \<Rightarrow> s)"

text \<open>
  \<open>port.categories[0]\<close> used as a property key: an empty array gives \<open>undefined\<close>,
  which as a key is the string \<open>undefined\<close>.
\<close>

definition categories0 :: "('v, 'z) MappedPort_scheme \<Rightarrow> string" where
  "categories0 p = (case categories p of [] \<Rightarrow> ''undefined'' | c # _ \<Rightarrow> c)"

text \<open>The message of the error of line 80.\<close>

definition alias_message :: "string \<Rightarrow> string option \<Rightarrow> string" where
  "alias_message slug a =
     ''port `'' @ slug @ ''` points to an alias `'' @ to_string a @ ''` that doesn't exist''"

text \<open>Lines 85 to 99: the value of \<open>url\<close> after the \<open>if\<close>.\<close>

definition resolve_url :: "string \<Rightarrow> 'v MappedPort \<Rightarrow> string option" where
  "resolve_url slug p =
     (if \<not> truthy (url p) then
        (case type p of
           port \<Rightarrow>
             (let repo = (case alias p of None \<Rightarrow> slug | Some a \<Rightarrow> a)
              in Some (''https://github.com/catppuccin/'' @ repo))
         | userstyle \<Rightarrow>
             Some (''https://github.com/catppuccin/userstyles/tree/main/styles/'' @ slug))
      else url p)"

text \<open>
  The arguments of \<open>push\<close> (lines 102 to 112). The objects are spreads of the entry, so
  they have all its properties; the type \<open>Omit<MappedPort, "readme" | "platform">\<close> of
  the buckets is erased when the script runs.
\<close>

definition pushed_rows :: "string \<Rightarrow> 'v MappedPort \<Rightarrow> 'v MappedPort list" where
  "pushed_rows slug p =
     (let u = resolve_url slug p in
      p\<lparr>url := u\<rparr> #
      map (\<lambda>n. p\<lparr>url := u, name := n\<rparr>)
        (map snd (case supports p of None \<Rightarrow> [] | Some s \<Rightarrow> s)))"

text \<open>
  \<open>Array.prototype.sort\<close> with a comparison function: a stable sort. \<open>c a b \<le> 0\<close>
  keeps \<open>a\<close> before \<open>b\<close>.
\<close>

fun insort_by :: "('a \<Rightarrow> 'a \<Rightarrow> int) \<Rightarrow> 'a \<Rightarrow> 'a list \<Rightarrow> 'a list" where
  "insort_by c x [] = [x]"
| "insort_by c x (y # ys) = (if c x y \<le> 0 then x # y # ys else y # insort_by c x ys)"

definition Array_sort :: "('a \<Rightarrow> 'a \<Rightarrow> int) \<Rightarrow> 'a list \<Rightarrow> 'a list" where
  "Array_sort c xs = foldr (insort_by c) xs []"

text \<open>\<open>(a, b) => a.name.localeCompare(b.name)\<close>, with \<open>localeCompare\<close> a parameter.\<close>

definition by_name :: "(string \<Rightarrow> string \<Rightarrow> int) \<Rightarrow> 'v MappedPort \<Rightarrow> 'v MappedPort \<Rightarrow> int" where
  "by_name localeCompare a b = localeCompare (name a) (name b)"

text \<open>
  The body of the \<open>reduce\<close> callback; \<open>slugs\<close> is the constant \<open>portSlugs\<close>.
  \<^item> Line 76, \<open>acc[c] ??= []\<close>: only \<open>undefined\<close> is replaced, an inherited member is
    kept.
  \<^item> Line 101, \<open>acc[c].push(...)\<close>: the array of an own property is extended in place;
    an inherited member has no \<open>push\<close>, and the call is a \<open>TypeError\<close>.
  \<^item> Line 115: the array is sorted in place.
\<close>

definition group_step ::
  "(string \<Rightarrow> string \<Rightarrow> int) \<Rightarrow> string list \<Rightarrow> (string \<times> 'v MappedPort list) list \<Rightarrow>
   string \<times> 'v MappedPort \<Rightarrow> error + (string \<times> 'v MappedPort list) list" where
  "group_step localeCompare slugs acc e =
     (case e of (slug, p) \<Rightarrow>
        let c = categories0 p;
            acc1 = (case obj_get acc c of Undefined \<Rightarrow> obj_assign c [] acc | _ \<Rightarrow> acc)
        in if truthy (alias p) \<and> the (alias p) \<notin> set slugs
           then Inl (Error (alias_message slug (alias p)))
           else
             (case obj_get acc1 c of
                Own rows \<Rightarrow>
                  Inr (obj_set c (Array_sort (by_name localeCompare) (rows @ pushed_rows slug p))
                         acc1)
              | _ \<Rightarrow> Inl TypeError))"

text \<open>\<open>reduce\<close> with a callback that may throw.\<close>

fun reduce_throw :: "('b \<Rightarrow> 'a \<Rightarrow> 'e + 'b) \<Rightarrow> 'b \<Rightarrow> 'a list \<Rightarrow> 'e + 'b" where
  "reduce_throw f acc [] = Inr acc"
| "reduce_throw f acc (x # xs) =
     (case f acc x of Inl e \<Rightarrow> Inl e | Inr acc' \<Rightarrow> reduce_throw f acc' xs)"

definition categorized ::
  "(string \<Rightarrow> string \<Rightarrow> int) \<Rightarrow> (string \<times> 'v MappedPort) list \<Rightarrow>
   error + (string \<times> 'v MappedPort list) list" where
  "categorized localeCompare mps =
     reduce_throw (group_step localeCompare (portSlugs mps)) [] mps"

subsection \<open>The renderer (lines 122 to 148)\<close>

definition newline :: string where
  "newline = [CHR 0x0A]"

text \<open>\<open>Array.prototype.join\<close>\<close>

fun join :: "string \<Rightarrow> string list \<Rightarrow> string" where
  "join sep [] = []"
| "join sep [x] = x"
| "join sep (x # y # ys) = x @ sep @ join sep (y # ys)"

text \<open>\<open>map\<close> with a callback that may throw.\<close>

fun map_throw :: "('a \<Rightarrow> 'e + 'b) \<Rightarrow> 'a list \<Rightarrow> 'e + 'b list" where
  "map_throw f [] = Inr []"
| "map_throw f (x # xs) =
     (case f x of
        Inl e \<Rightarrow> Inl e
      | Inr y \<Rightarrow> (case map_throw f xs of Inl e \<Rightarrow> Inl e | Inr ys \<Rightarrow> Inr (y # ys)))"

text \<open>
  Line 122: \<open>ports: categorized[category.key] ?? []\<close>. Only \<open>undefined\<close> is replaced by
  the empty array; an inherited member stays.
\<close>

definition portListData ::
  "Category list \<Rightarrow> (string \<times> 'v MappedPort list) list \<Rightarrow>
   (Category \<times> 'v MappedPort list property) list" where
  "portListData cats cz =
     map (\<lambda>category.
            (category, (case obj_get cz (key category) of Undefined \<Rightarrow> Own [] | v \<Rightarrow> v)))
       cats"

text \<open>\<open>data.ports.length\<close>; \<open>None\<close> is \<open>undefined\<close>.\<close>

definition ports_length :: "'a list property \<Rightarrow> nat option" where
  "ports_length v =
     (case v of
        Own rows \<Rightarrow> Some (length rows)
      | Inherited k \<Rightarrow> inherited_length k
      | Undefined \<Rightarrow> None)"

definition render_row :: "'v MappedPort \<Rightarrow> string" where
  "render_row p = ''- ['' @ name p @ '']('' @ to_string (url p) @ '')''"

text \<open>
  The callback of line 134. \<open>data.ports.map\<close> is a function for an array only: for an
  inherited member the call is a \<open>TypeError\<close>.
\<close>

definition render_block :: "Category \<times> 'v MappedPort list property \<Rightarrow> error + string" where
  "render_block d =
     (case snd d of
        Own rows \<Rightarrow>
          Inr (''<details open>'' @ newline @
               ''<summary>'' @ emoji (fst d) @ '' '' @ cname (fst d) @ ''</summary>'' @ newline @
               newline @
               join newline (map render_row rows) @ newline @
               newline @
               ''</details>'')
      | _ \<Rightarrow> Inl TypeError)"

definition portContent ::
  "Category list \<Rightarrow> (string \<times> 'v MappedPort list) list \<Rightarrow> error + string" where
  "portContent cats cz =
     (case map_throw render_block
             (filter (\<lambda>d. ports_length (snd d) \<noteq> Some 0) (portListData cats cz)) of
        Inl e \<Rightarrow> Inl e
      | Inr blocks \<Rightarrow> Inr (join newline blocks))"

definition render_showcase :: "Showcase \<Rightarrow> string" where
  "render_showcase s = ''- ['' @ title s @ '']('' @ link s @ '') - '' @ description s"

definition showcaseContent :: "Showcase list option \<Rightarrow> string option" where
  "showcaseContent sc = map_option (\<lambda>l. join newline (map render_showcase l)) sc"

subsection \<open>Splicing and writing (lines 150 to 163)\<close>

text \<open>
  What the run does to the outside: calls of \<open>updateReadme\<close> (by section),
  \<open>console.log\<close> of a caught error, and the write of the README.
\<close>

datatype event = UpdateReadme string | ConsoleLog error | WriteTextFile string

record state =
  readmeContent :: string
  trace :: "event list"

text \<open>
  \<open>updateReadme\<close> is a parameter: from the document, the new content and the section
  to the new document, or a thrown error.
\<close>

type_synonym updater = "string \<Rightarrow> string \<Rightarrow> string \<Rightarrow> error + string"

text \<open>\<open>readmeContent = updateReadme(readmeContent, content, {section})\<close>\<close>

definition assign_update :: "updater \<Rightarrow> string \<Rightarrow> string \<Rightarrow> state \<Rightarrow> error + state" where
  "assign_update updateReadme content section st =
     (case updateReadme (readmeContent st) content section of
        Inl e \<Rightarrow> Inl e
      | Inr doc \<Rightarrow> Inr (st\<lparr>readmeContent := doc\<rparr>))"

definition called :: "string \<Rightarrow> state \<Rightarrow> state" where
  "called section st = st\<lparr>trace := trace st @ [UpdateReadme section]\<rparr>"

text \<open>
  The \<open>try\<close> block. A statement that throws leaves the state as it was before the
  assignment; the state comes back with the error.
\<close>

definition try_block :: "updater \<Rightarrow> string \<Rightarrow> string option \<Rightarrow> state \<Rightarrow> error option \<times> state" where
  "try_block updateReadme pc sc st =
     (let st1 = called ''portlist'' st in
      case assign_update updateReadme pc ''portlist'' st1 of
        Inl e \<Rightarrow> (Some e, st1)
      | Inr st2 \<Rightarrow>
          if truthy sc then
            (let st3 = called ''showcase'' st2 in
             case assign_update updateReadme (the sc) ''showcase'' st3 of
               Inl e \<Rightarrow> (Some e, st3)
             | Inr st4 \<Rightarrow> (None, st4))
          else (None, st2))"

definition catch_block :: "error option \<times> state \<Rightarrow> state" where
  "catch_block r =
     (case fst r of
        None \<Rightarrow> snd r
      | Some e \<Rightarrow> (snd r)\<lparr>trace := trace (snd r) @ [ConsoleLog e]\<rparr>)"

definition finally_block :: "state \<Rightarrow> state" where
  "finally_block st = st\<lparr>trace := trace st @ [WriteTextFile (readmeContent st)]\<rparr>"

subsection \<open>The script\<close>

text \<open>
  The outcome of a run: the error that ended it, if one did, and what it did to the
  outside. \<open>readme_file\<close> is the result of reading the README (line 130); the port list
  is rendered after it (line 132), outside the \<open>try\<close>.
\<close>

record outcome =
  uncaught :: "error option"
  effects :: "event list"

definition main ::
  "updater \<Rightarrow> (string \<Rightarrow> string \<Rightarrow> int) \<Rightarrow> 'v PortsSchema \<Rightarrow> Category list option \<Rightarrow>
   'v UserstylesSchema \<Rightarrow> error + string \<Rightarrow> outcome" where
  "main updateReadme localeCompare portsData categoriesData userstylesData readme_file =
     (if ports portsData = None \<or> categoriesData = None \<or> userstyles userstylesData = None
      then \<lparr>uncaught = Some (Error ''ports.yml is empty''), effects = []\<rparr>
      else
        let mps = merged_ports (the (ports portsData)) (the (userstyles userstylesData)) in
        case categorized localeCompare mps of
          Inl e \<Rightarrow> \<lparr>uncaught = Some e, effects = []\<rparr>
        | Inr cz \<Rightarrow>
            (case readme_file of
               Inl e \<Rightarrow> \<lparr>uncaught = Some e, effects = []\<rparr>
             | Inr content \<Rightarrow>
                 (case portContent (the categoriesData) cz of
                    Inl e \<Rightarrow> \<lparr>uncaught = Some e, effects = []\<rparr>
                  | Inr pc \<Rightarrow>
                      let sc = showcaseContent (showcases portsData);
                          st = finally_block (catch_block
                                 (try_block updateReadme pc sc
                                    \<lparr>readmeContent = content, trace = []\<rparr>))
                      in \<lparr>uncaught = None, effects = trace st\<rparr>)))"

subsection \<open>The buckets\<close>

text \<open>The rows of the own bucket of a category; none when there is no such bucket.\<close>

definition bucket :: "(string \<times> 'a list) list \<Rightarrow> string \<Rightarrow> 'a list" where
  "bucket cz k = (case map_of cz k of None \<Rightarrow> [] | Some rows \<Rightarrow> rows)"

text \<open>
  The invariant of the grouper: no category key twice, no bucket under the name of a
  member of \<open>Object.prototype\<close>, and every bucket in order by name under
  \<open>localeCompare\<close>.
\<close>

definition sorted_buckets ::
  "(string \<Rightarrow> string \<Rightarrow> int) \<Rightarrow> (string \<times> 'v MappedPort list) list \<Rightarrow> bool" where
  "sorted_buckets lc acc =
     (distinct (map fst acc) \<and>
      (\<forall>k rows. map_of acc k = Some rows \<longrightarrow> sorted_wrt (\<lambda>a b. lc (name a) (name b) \<le> 0) rows))"

subsection \<open>Example data\<close>

text \<open>A port with the given name, categories, url, alias and supports, and nothing else.\<close>

definition example_port ::
  "string \<Rightarrow> string list \<Rightarrow> string option \<Rightarrow> string option \<Rightarrow>
   (string \<times> string) list option \<Rightarrow> string Port" where
  "example_port n cs u a s =
     \<lparr> name = n, categories = cs, url = u, alias = a, supports = s,
       platform = None, readme = None, other = [] \<rparr>"

text \<open>A comparison of strings by length only: a total preorder, like a collation.\<close>

definition compare_length :: "string \<Rightarrow> string \<Rightarrow> int" where
  "compare_length a b = int (length a) - int (length b)"

text \<open>
  An \<open>updateReadme\<close> that throws for the sections listed as missing and otherwise
  appends the section and the content to the document.
\<close>

definition example_updateReadme :: "string list \<Rightarrow> updater" where
  "example_updateReadme missing doc content section =
     (if section \<in> set missing then Inl (Error (''no section '' @ section))
      else Inr (doc @ ''<'' @ section @ ''>'' @ content))"

section \<open>Properties\<close>

subsection \<open>Evaluation of the examples\<close>

lemmas object_defs = obj_set_def obj_get_def obj_assign_def key_before_def is_array_index_def
  is_digit_def index_value_def spread2_def Object_prototype_keys_def inherited_length_def
lemmas merger_defs = merged_ports_def label_def with_type_def portSlugs_def example_port_def
lemmas grouper_defs = categorized_def group_step_def truthy_def to_string_def categories0_def
  alias_message_def resolve_url_def pushed_rows_def Array_sort_def by_name_def bucket_def
  compare_length_def Let_def
lemmas renderer_defs = portContent_def portListData_def ports_length_def render_block_def
  render_row_def newline_def showcaseContent_def render_showcase_def
lemmas script_defs = main_def try_block_def catch_block_def finally_block_def
  assign_update_def called_def example_updateReadme_def

lemma compare_length_total: "\<forall>a b. compare_length a b \<le> 0 \<or> compare_length b a \<le> 0"
  by (auto simp: compare_length_def)

lemma compare_length_trans:
  "\<forall>a b c. compare_length a b \<le> 0 \<and> compare_length b c \<le> 0 \<longrightarrow> compare_length a c \<le> 0"
  by (auto simp: compare_length_def)

subsection \<open>Objects\<close>

lemma set_obj_insert: "set (obj_insert k v kvs) = insert (k, v) (set kvs)"
  by (induction kvs) (auto split: if_splits)

lemma keys_obj_insert: "fst ` set (obj_insert k v kvs) = insert k (fst ` set kvs)"
  by (simp add: set_obj_insert)

lemma map_fst_obj_overwrite: "map fst (obj_overwrite k v kvs) = map fst kvs"
  by (induction kvs) auto



lemma map_of_obj_insert:
  "k \<notin> fst ` set kvs \<Longrightarrow> map_of (obj_insert k v kvs) x = (if x = k then Some v else map_of kvs x)"
  by (induction kvs) auto

lemma map_of_obj_overwrite:
  "map_of (obj_overwrite k v kvs) x =
     (if x = k \<and> k \<in> fst ` set kvs then Some v else map_of kvs x)"
  by (induction kvs) (auto simp: rev_image_eqI)

lemma map_of_obj_set: "map_of (obj_set k v obj) k' = (if k' = k then Some v else map_of obj k')"
  by (simp add: obj_set_def map_of_obj_insert map_of_obj_overwrite)

lemma distinct_obj_insert:
  "k \<notin> fst ` set kvs \<Longrightarrow> distinct (map fst kvs) \<Longrightarrow> distinct (map fst (obj_insert k v kvs))"
  by (induction kvs) (auto simp: keys_obj_insert)

lemma distinct_obj_set: "distinct (map fst obj) \<Longrightarrow> distinct (map fst (obj_set k v obj))"
  by (simp add: obj_set_def distinct_obj_insert map_fst_obj_overwrite)





lemma obj_assign_other: "k \<noteq> ''__proto__'' \<Longrightarrow> obj_assign k v obj = obj_set k v obj"
  by (simp add: obj_assign_def)












subsection \<open>The merger\<close>



subsection \<open>Sorting\<close>

lemma mset_insort_by: "mset (insort_by c x xs) = add_mset x (mset xs)"
  by (induction xs) auto

lemma mset_Array_sort: "mset (Array_sort c xs) = mset xs"
  unfolding Array_sort_def by (induction xs) (auto simp: mset_insort_by)

lemma set_Array_sort: "set (Array_sort c xs) = set xs"
  using mset_Array_sort [of c xs] by (metis set_mset_mset)


lemma set_insort_by: "set (insort_by c x xs) = insert x (set xs)"
  using mset_insort_by [of c x xs] by (metis set_mset_add_mset_insert set_mset_mset)

lemma sorted_insort_by:
  assumes total: "\<forall>a b. c a b \<le> 0 \<or> c b a \<le> 0"
    and trans: "\<forall>a b d. c a b \<le> 0 \<and> c b d \<le> 0 \<longrightarrow> c a d \<le> 0"
  shows "sorted_wrt (\<lambda>a b. c a b \<le> 0) xs \<Longrightarrow> sorted_wrt (\<lambda>a b. c a b \<le> 0) (insort_by c x xs)"
proof (induction xs)
  case Nil
  then show ?case by simp
next
  case (Cons y ys)
  from Cons.prems have above: "\<And>z. z \<in> set ys \<Longrightarrow> c y z \<le> 0"
    and rest: "sorted_wrt (\<lambda>a b. c a b \<le> 0) ys"
    by simp_all
  show ?case
  proof (cases "c x y \<le> 0")
    case True
    have "c x z \<le> 0" if "z \<in> set ys" for z
    proof -
      from that have "c y z \<le> 0" by (rule above)
      with True show ?thesis using trans [rule_format, of x y z] by simp
    qed
    with True above rest show ?thesis by simp
  next
    case False
    with total [rule_format, of x y] have "c y x \<le> 0" by simp
    with False above Cons.IH [OF rest] show ?thesis by (simp add: set_insort_by)
  qed
qed

lemma sorted_Array_sort:
  assumes "\<forall>a b. c a b \<le> 0 \<or> c b a \<le> 0"
    and "\<forall>a b d. c a b \<le> 0 \<and> c b d \<le> 0 \<longrightarrow> c a d \<le> 0"
  shows "sorted_wrt (\<lambda>a b. c a b \<le> 0) (Array_sort c xs)"
proof (induction xs)
  case Nil
  then show ?case by (simp add: Array_sort_def)
next
  case (Cons x xs)
  have "Array_sort c (x # xs) = insort_by c x (Array_sort c xs)"
    by (simp add: Array_sort_def)
  with sorted_insort_by [OF assms Cons.IH] show ?case by simp
qed

subsection \<open>One step of the grouper\<close>

lemma proto_in_keys: "''__proto__'' \<in> set Object_prototype_keys"
  by (simp add: Object_prototype_keys_def)

lemma bucket_obj_set: "bucket (obj_set k v obj) k' = (if k' = k then v else bucket obj k')"
  by (simp add: bucket_def map_of_obj_set)

text \<open>
  The step throws for a dangling alias, then for a primary category that is not an own
  key of the accumulator and names a member of \<open>Object.prototype\<close>; otherwise it returns.
\<close>

lemma group_step_cases:
  "group_step lc slugs acc (slug, p) =
     (if truthy (alias p) \<and> the (alias p) \<notin> set slugs
      then Inl (Error (alias_message slug (alias p)))
      else if categories0 p \<notin> fst ` set acc \<and> categories0 p \<in> set Object_prototype_keys
      then Inl TypeError
      else Inr (obj_set (categories0 p)
                  (Array_sort (by_name lc) (bucket acc (categories0 p) @ pushed_rows slug p))
                  (if categories0 p \<in> fst ` set acc then acc
                   else obj_set (categories0 p) [] acc)))"
proof (cases "map_of acc (categories0 p)")
  case None
  then have n: "categories0 p \<notin> fst ` set acc" by (simp add: map_of_eq_None_iff)
  show ?thesis
  proof (cases "categories0 p \<in> set Object_prototype_keys")
    case True
    with None n show ?thesis
      by (simp add: group_step_def Let_def obj_get_def)
  next
    case False
    with proto_in_keys have "categories0 p \<noteq> ''__proto__''" by auto
    with None n False show ?thesis
      by (simp add: group_step_def Let_def obj_get_def obj_assign_other map_of_obj_set bucket_def)
  qed
next
  case (Some rows)
  then have "(categories0 p, rows) \<in> set acc" by (rule map_of_SomeD)
  then have "categories0 p \<in> fst ` set acc" by force
  with Some show ?thesis
    by (simp add: group_step_def Let_def obj_get_def bucket_def)
qed

lemma group_step_result:
  assumes "group_step lc slugs acc (slug, p) = Inr acc'"
  shows "acc' = obj_set (categories0 p)
                  (Array_sort (by_name lc) (bucket acc (categories0 p) @ pushed_rows slug p))
                  (if categories0 p \<in> fst ` set acc then acc
                   else obj_set (categories0 p) [] acc)"
  using assms by (simp add: group_step_cases split: if_splits)

lemma group_step_rows:
  assumes "group_step lc slugs acc (slug, p) = Inr acc'"
  shows "bucket acc' k =
           (if k = categories0 p
            then Array_sort (by_name lc) (bucket acc k @ pushed_rows slug p)
            else bucket acc k)"
  by (simp add: group_step_result [OF assms] bucket_obj_set)

lemma group_step_map_of:
  assumes "group_step lc slugs acc (slug, p) = Inr acc'"
  shows "map_of acc' k =
           (if k = categories0 p
            then Some (Array_sort (by_name lc) (bucket acc k @ pushed_rows slug p))
            else map_of acc k)"
  by (simp add: group_step_result [OF assms] map_of_obj_set)

lemma group_step_distinct:
  assumes "group_step lc slugs acc (slug, p) = Inr acc'" and "distinct (map fst acc)"
  shows "distinct (map fst acc')"
  using assms(2) by (simp add: group_step_result [OF assms(1)] distinct_obj_set)


lemma reduce_throw_invariant:
  assumes step: "\<And>acc x acc'. I acc \<Longrightarrow> f acc x = Inr acc' \<Longrightarrow> I acc'"
  shows "I acc \<Longrightarrow> reduce_throw f acc xs = Inr r \<Longrightarrow> I r"
proof (induction xs arbitrary: acc)
  case Nil
  then show ?case by simp
next
  case (Cons x xs)
  show ?case
  proof (cases "f acc x")
    case (Inl e)
    with Cons.prems(2) show ?thesis by simp
  next
    case (Inr acc')
    with Cons.prems(2) have r: "reduce_throw f acc' xs = Inr r" by simp
    from step [OF Cons.prems(1) Inr] have "I acc'" .
    from Cons.IH [OF this r] show ?thesis .
  qed
qed

lemma reduce_throw_first_error:
  assumes "find P xs = Some x"
    and "\<And>acc y. P y \<Longrightarrow> f acc y = Inl (E y)"
    and "\<And>acc y. \<not> P y \<Longrightarrow> \<exists>acc'. f acc y = Inr acc'"
  shows "reduce_throw f acc xs = Inl (E x)"
  using assms(1)
proof (induction xs arbitrary: acc)
  case Nil
  then show ?case by simp
next
  case (Cons y ys)
  show ?case
  proof (cases "P y")
    case True
    with Cons.prems have "x = y" by simp
    with True assms(2) show ?thesis by simp
  next
    case False
    with Cons.prems have "find P ys = Some x" by simp
    from assms(3) [OF False] obtain acc' where "f acc y = Inr acc'" by blast
    with Cons.IH [OF \<open>find P ys = Some x\<close>] show ?thesis by simp
  qed
qed

lemma sorted_by_name:
  assumes "\<forall>a b. lc a b \<le> 0 \<or> lc b a \<le> 0"
    and "\<forall>a b c. lc a b \<le> 0 \<and> lc b c \<le> 0 \<longrightarrow> lc a c \<le> 0"
  shows "sorted_wrt (\<lambda>a b. lc (name a) (name b) \<le> 0) (Array_sort (by_name lc) xs)"
proof -
  have t: "\<forall>a b. by_name lc a b \<le> 0 \<or> by_name lc b a \<le> 0"
    using assms(1) by (simp add: by_name_def)
  have "\<forall>a b d. by_name lc a b \<le> 0 \<and> by_name lc b d \<le> 0 \<longrightarrow> by_name lc a d \<le> 0"
  proof (intro allI impI)
    fix a b d
    assume "by_name lc a b \<le> 0 \<and> by_name lc b d \<le> 0"
    then show "by_name lc a d \<le> 0"
      using assms(2) [rule_format, of "name a" "name b" "name d"] by (simp add: by_name_def)
  qed
  from sorted_Array_sort [OF t this, of xs]
  have s: "sorted_wrt (\<lambda>a b. by_name lc a b \<le> 0) (Array_sort (by_name lc) xs)" .
  have e: "(\<lambda>a b. by_name lc a b \<le> 0) = (\<lambda>a b. lc (name a) (name b) \<le> 0)"
    by (simp add: by_name_def)
  from s show ?thesis unfolding e .
qed

lemma group_step_sorted:
  assumes "\<forall>a b. lc a b \<le> 0 \<or> lc b a \<le> 0"
    and "\<forall>a b c. lc a b \<le> 0 \<and> lc b c \<le> 0 \<longrightarrow> lc a c \<le> 0"
    and "sorted_buckets lc acc" and "group_step lc slugs acc e = Inr acc'"
  shows "sorted_buckets lc acc'"
proof -
  obtain slug p where e: "e = (slug, p)" by (cases e)
  note s = assms(4) [unfolded e]
  from assms(3) have "distinct (map fst acc')"
    using group_step_distinct [OF s] by (simp add: sorted_buckets_def)
  moreover have "sorted_wrt (\<lambda>a b. lc (name a) (name b) \<le> 0) rows" if "map_of acc' k = Some rows" for k rows
  proof (cases "k = categories0 p")
    case True
    with that group_step_map_of [OF s, of k] sorted_by_name [OF assms(1,2)] show ?thesis by simp
  next
    case False
    with that group_step_map_of [OF s, of k] assms(3) show ?thesis by (simp add: sorted_buckets_def)
  qed
  ultimately show ?thesis by (simp add: sorted_buckets_def)
qed

subsection \<open>The order of the buckets\<close>

text \<open>
  C4. \<open>localeCompare\<close> is a consistent comparison: any two strings are comparable, and
  the order is transitive. Then, whenever grouping has processed the first \<open>n\<close> entries
  without an error, the rows of every bucket are in non-decreasing order by \<open>name\<close>; so
  are the rows of every bucket of the final result.
\<close>

theorem buckets_sorted_after_every_entry:
  assumes "\<forall>a b. lc a b \<le> 0 \<or> lc b a \<le> 0"
    and "\<forall>a b c. lc a b \<le> 0 \<and> lc b c \<le> 0 \<longrightarrow> lc a c \<le> 0"
  shows "(\<forall>n acc. reduce_throw (group_step lc (portSlugs mps)) [] (take n mps) = Inr acc \<longrightarrow>
            (\<forall>(k, rows) \<in> set acc. sorted_wrt (\<lambda>a b. lc (name a) (name b) \<le> 0) rows))
       \<and> (\<forall>cz. categorized lc mps = Inr cz \<longrightarrow>
            (\<forall>(k, rows) \<in> set cz. sorted_wrt (\<lambda>a b. lc (name a) (name b) \<le> 0) rows))"
proof -
  have inv: "sorted_buckets lc acc"
    if "reduce_throw (group_step lc (portSlugs mps)) [] xs = Inr acc" for xs acc
  proof (rule reduce_throw_invariant [where I = "sorted_buckets lc", OF _ _ that])
    show "sorted_buckets lc []" by (simp add: sorted_buckets_def)
  next
    fix a x a'
    assume "sorted_buckets lc a" and "group_step lc (portSlugs mps) a x = Inr a'"
    then show "sorted_buckets lc a'" by (rule group_step_sorted [OF assms])
  qed
  have fin: "\<forall>(k, rows) \<in> set acc. sorted_wrt (\<lambda>a b. lc (name a) (name b) \<le> 0) rows"
    if "sorted_buckets lc acc" for acc
  proof -
    have "sorted_wrt (\<lambda>a b. lc (name a) (name b) \<le> 0) rows" if m: "(k, rows) \<in> set acc" for k rows
    proof -
      from \<open>sorted_buckets lc acc\<close> m have "map_of acc k = Some rows"
        by (simp add: sorted_buckets_def)
      with \<open>sorted_buckets lc acc\<close> show ?thesis by (simp add: sorted_buckets_def)
    qed
    then show ?thesis by blast
  qed
  have c: "categorized lc mps = reduce_throw (group_step lc (portSlugs mps)) [] mps"
    by (simp add: categorized_def)
  show ?thesis
  proof (intro conjI allI impI)
    fix n acc
    assume "reduce_throw (group_step lc (portSlugs mps)) [] (take n mps) = Inr acc"
    then have "sorted_buckets lc acc" by (rule inv)
    then show "\<forall>(k, rows) \<in> set acc. sorted_wrt (\<lambda>a b. lc (name a) (name b) \<le> 0) rows"
      by (rule fin)
  next
    fix cz
    assume "categorized lc mps = Inr cz"
    then have "sorted_buckets lc cz" unfolding c by (rule inv)
    then show "\<forall>(k, rows) \<in> set cz. sorted_wrt (\<lambda>a b. lc (name a) (name b) \<le> 0) rows"
      by (rule fin)
  qed
qed


theorem buckets_sorted_after_every_entry_witness:
  "categorized compare_length
      (merged_ports [(''p1'', example_port ''Zeta'' [''a''] None None None),
                     (''p2'', example_port ''Be'' [''a''] (Some ''https://x'') None None)] [])
    = Inr [(''a'', [with_type port (example_port ''Be'' [''a''] (Some ''https://x'') None None),
                    with_type port (example_port ''Zeta'' [''a''] (Some ''https://github.com/catppuccin/p1'') None None)])]
   \<and> sorted_wrt (\<lambda>a b. compare_length (name a) (name b) \<le> 0)
        [with_type port (example_port ''Be'' [''a''] (Some ''https://x'') None None),
         with_type port (example_port ''Zeta'' [''a''] (Some ''https://github.com/catppuccin/p1'') None None)]"
proof -
  let ?mps = "merged_ports [(''p1'', example_port ''Zeta'' [''a''] None None None),
                     (''p2'', example_port ''Be'' [''a''] (Some ''https://x'') None None)] []"
  have c: "categorized compare_length ?mps
    = Inr [(''a'', [with_type port (example_port ''Be'' [''a''] (Some ''https://x'') None None),
                    with_type port (example_port ''Zeta'' [''a''] (Some ''https://github.com/catppuccin/p1'') None None)])]"
    by (simp add: object_defs merger_defs grouper_defs)
  from buckets_sorted_after_every_entry [OF compare_length_total compare_length_trans, of ?mps] c
  show ?thesis by simp
qed

subsection \<open>The rows of an entry\<close>

lemma pushed_rows_length:
  "length (pushed_rows slug p) = length (case supports p of None \<Rightarrow> [] | Some s \<Rightarrow> s) + 1"
  by (simp add: pushed_rows_def Let_def)




text \<open>
  C1, as the script behaves. Every row that the grouper appends for an entry (the
  entry's own row and each row of a variant) carries every field of the entry,
  \<open>readme\<close> and \<open>platform\<close> included: only \<open>url\<close> (the resolved URL) and, for a
  variant, \<open>name\<close> differ from the entry.
\<close>

theorem rows_carry_all_fields:
  assumes "group_step lc slugs acc (slug, p) = Inr acc'"
  shows "\<exists>rows.
           bucket acc' (categories0 p) =
             Array_sort (by_name lc) (bucket acc (categories0 p) @ rows)
         \<and> length rows = length (case supports p of None \<Rightarrow> [] | Some s \<Rightarrow> s) + 1
         \<and> name (hd rows) = name p
         \<and> (\<forall>r \<in> set rows.
               readme r = readme p \<and> platform r = platform p
               \<and> categories r = categories p \<and> alias r = alias p \<and> supports r = supports p
               \<and> other r = other p \<and> type r = type p
               \<and> r\<lparr>name := name p, url := url p\<rparr> = p)"
proof -
  have "\<forall>r \<in> set (pushed_rows slug p).
               readme r = readme p \<and> platform r = platform p
               \<and> categories r = categories p \<and> alias r = alias p \<and> supports r = supports p
               \<and> other r = other p \<and> type r = type p
               \<and> r\<lparr>name := name p, url := url p\<rparr> = p"
    by (auto simp: pushed_rows_def Let_def)
  moreover have "name (hd (pushed_rows slug p)) = name p"
    by (simp add: pushed_rows_def Let_def)
  ultimately show ?thesis
    using group_step_rows [OF assms, of "categories0 p"] pushed_rows_length [of slug p]
    by auto
qed

theorem rows_carry_all_fields_witness:
  "group_step compare_length [''p1''] []
     (''p1'', with_type port
        ((example_port ''Zeta'' [''a''] None None (Some [(''k'', ''Variant'')]))
           \<lparr>platform := Some ''linux'', readme := Some ''docs''\<rparr>))
   = Inr [(''a'',
       [with_type port
          ((example_port ''Zeta'' [''a''] (Some ''https://github.com/catppuccin/p1'') None
              (Some [(''k'', ''Variant'')]))
             \<lparr>platform := Some ''linux'', readme := Some ''docs''\<rparr>),
        with_type port
          ((example_port ''Variant'' [''a''] (Some ''https://github.com/catppuccin/p1'') None
              (Some [(''k'', ''Variant'')]))
             \<lparr>platform := Some ''linux'', readme := Some ''docs''\<rparr>)])]"
proof -
  have s: "group_step compare_length [''p1''] []
     (''p1'', with_type port
        ((example_port ''Zeta'' [''a''] None None (Some [(''k'', ''Variant'')]))
           \<lparr>platform := Some ''linux'', readme := Some ''docs''\<rparr>))
   = Inr [(''a'',
       [with_type port
          ((example_port ''Zeta'' [''a''] (Some ''https://github.com/catppuccin/p1'') None
              (Some [(''k'', ''Variant'')]))
             \<lparr>platform := Some ''linux'', readme := Some ''docs''\<rparr>),
        with_type port
          ((example_port ''Variant'' [''a''] (Some ''https://github.com/catppuccin/p1'') None
              (Some [(''k'', ''Variant'')]))
             \<lparr>platform := Some ''linux'', readme := Some ''docs''\<rparr>)])]"
    by (simp add: object_defs merger_defs grouper_defs)
  from rows_carry_all_fields [OF s] s show ?thesis by simp
qed

text \<open>
  C1 as stated fails: the row of a port with \<open>readme\<close> and \<open>platform\<close> has both.
\<close>

theorem rows_keep_readme_and_platform:
  "categorized compare_length
     (merged_ports
        [(''p1'', (example_port ''Zeta'' [''a''] None None None)
                    \<lparr>platform := Some ''linux'', readme := Some ''docs''\<rparr>)] [])
   = Inr [(''a'',
       [with_type port
          ((example_port ''Zeta'' [''a''] (Some ''https://github.com/catppuccin/p1'') None None)
             \<lparr>platform := Some ''linux'', readme := Some ''docs''\<rparr>)])]
   \<and> readme (with_type port
          ((example_port ''Zeta'' [''a''] (Some ''https://github.com/catppuccin/p1'') None None)
             \<lparr>platform := Some ''linux'', readme := Some ''docs''\<rparr>)) = Some ''docs''
   \<and> platform (with_type port
          ((example_port ''Zeta'' [''a''] (Some ''https://github.com/catppuccin/p1'') None None)
             \<lparr>platform := Some ''linux'', readme := Some ''docs''\<rparr>)) = Some ''linux''"
  by (simp add: object_defs merger_defs grouper_defs)

text \<open>
  C6, as the script behaves. The URL of every row of an entry is the entry's \<open>url\<close> when
  that is set and not the empty string; otherwise, for a port,
  \<open>https://github.com/catppuccin/\<close> followed by the alias if there is one and by the slug
  if not; otherwise, for a userstyle,
  \<open>https://github.com/catppuccin/userstyles/tree/main/styles/\<close> followed by the slug.
\<close>

theorem rows_url_resolved:
  assumes "group_step lc slugs acc (slug, p) = Inr acc'"
  shows "\<exists>rows.
           bucket acc' (categories0 p) =
             Array_sort (by_name lc) (bucket acc (categories0 p) @ rows)
         \<and> length rows = length (case supports p of None \<Rightarrow> [] | Some s \<Rightarrow> s) + 1
         \<and> (\<forall>r \<in> set rows.
               (\<forall>u. url p = Some u \<and> u \<noteq> [] \<longrightarrow> url r = Some u)
             \<and> ((url p = None \<or> url p = Some []) \<and> type p = port \<longrightarrow>
                  url r = Some (''https://github.com/catppuccin/''
                                @ (case alias p of None \<Rightarrow> slug | Some a \<Rightarrow> a)))
             \<and> ((url p = None \<or> url p = Some []) \<and> type p = userstyle \<longrightarrow>
                  url r = Some (''https://github.com/catppuccin/userstyles/tree/main/styles/''
                                @ slug)))"
proof -
  have "\<forall>r \<in> set (pushed_rows slug p).
               (\<forall>u. url p = Some u \<and> u \<noteq> [] \<longrightarrow> url r = Some u)
             \<and> ((url p = None \<or> url p = Some []) \<and> type p = port \<longrightarrow>
                  url r = Some (''https://github.com/catppuccin/''
                                @ (case alias p of None \<Rightarrow> slug | Some a \<Rightarrow> a)))
             \<and> ((url p = None \<or> url p = Some []) \<and> type p = userstyle \<longrightarrow>
                  url r = Some (''https://github.com/catppuccin/userstyles/tree/main/styles/''
                                @ slug))"
    by (auto simp: pushed_rows_def Let_def resolve_url_def truthy_def)
  with group_step_rows [OF assms, of "categories0 p"] pushed_rows_length [of slug p]
  show ?thesis by auto
qed

theorem rows_url_resolved_witness:
  "group_step compare_length [''s''] []
     (''s'', with_type userstyle (example_port ''Style'' [''b''] None None None))
   = Inr [(''b'',
       [with_type userstyle (example_port ''Style'' [''b'']
          (Some ''https://github.com/catppuccin/userstyles/tree/main/styles/s'') None None)])]"
proof -
  have s: "group_step compare_length [''s''] []
     (''s'', with_type userstyle (example_port ''Style'' [''b''] None None None))
   = Inr [(''b'',
       [with_type userstyle (example_port ''Style'' [''b'']
          (Some ''https://github.com/catppuccin/userstyles/tree/main/styles/s'') None None)])]"
    by (simp add: object_defs merger_defs grouper_defs)
  from rows_url_resolved [OF s] s show ?thesis by simp
qed

text \<open>
  C6 as stated fails: a port whose \<open>url\<close> is set to the empty string gets the derived URL,
  not its \<open>url\<close>.
\<close>

theorem empty_url_is_derived:
  "categorized compare_length
     (merged_ports [(''p1'', example_port ''Zeta'' [''a''] (Some '''') None None)] [])
   = Inr [(''a'',
       [with_type port
          (example_port ''Zeta'' [''a''] (Some ''https://github.com/catppuccin/p1'') None None)])]"
  by (simp add: object_defs merger_defs grouper_defs)

subsection \<open>A dangling alias\<close>

text \<open>An alias that is not the empty string and not a known slug: the step throws.\<close>

lemma group_step_dangling:
  assumes "alias p = Some a" and "a \<noteq> []" and "a \<notin> set slugs"
  shows "group_step lc slugs acc (slug, p) =
           Inl (Error (''port `'' @ slug @ ''` points to an alias `'' @ a
                       @ ''` that doesn't exist''))"
  using assms by (simp add: group_step_cases truthy_def alias_message_def to_string_def)

text \<open>An error of the grouper ends the run: nothing is spliced, logged or written.\<close>

lemma main_grouping_throws:
  assumes "ports portsData = Some ps" and "categoriesData = Some cats"
    and "userstyles userstylesData = Some us"
    and "categorized lc (merged_ports ps us) = Inl e"
  shows "main upd lc portsData categoriesData userstylesData readme_file =
           \<lparr>uncaught = Some e, effects = []\<rparr>"
  using assms by (simp add: main_def Let_def)

text \<open>The example of the specification: an alias \<open>missing-slug\<close>.\<close>

lemma missing_slug_is_fatal:
  "main (example_updateReadme []) compare_length
     \<lparr>ports = Some [(''p1'', example_port ''Zeta'' [''a''] None (Some ''missing-slug'') None)],
      showcases = None\<rparr>
     (Some [\<lparr>key = ''a'', cname = ''Alpha'', emoji = ''^''\<rparr>])
     \<lparr>userstyles = Some []\<rparr> (Inr ''doc'')
   = \<lparr>uncaught = Some (Error ''port `p1` points to an alias `missing-slug` that doesn't exist''),
      effects = []\<rparr>"
  by (simp add: object_defs merger_defs grouper_defs renderer_defs script_defs)

text \<open>
  C3 fails on the script for an alias set to the empty string: it is no known slug, yet
  line 79 does not throw, and line 89 takes the empty alias for the repository, so the
  row gets the URL \<open>https://github.com/catppuccin/\<close>.
\<close>

theorem empty_alias_is_not_checked:
  "'''' \<notin> set (portSlugs (merged_ports
        [(''p1'', example_port ''Zeta'' [''a''] None (Some '''') None)] []))
   \<and> categorized compare_length
        (merged_ports [(''p1'', example_port ''Zeta'' [''a''] None (Some '''') None)] [])
     = Inr [(''a'',
         [with_type port
            (example_port ''Zeta'' [''a''] (Some ''https://github.com/catppuccin/'')
               (Some '''') None)])]"
  by (simp add: object_defs merger_defs grouper_defs)

subsection \<open>The check of line 40\<close>

lemma main_guard_passed:
  assumes "ports portsData = Some ps" and "categoriesData = Some cats"
    and "userstyles userstylesData = Some us"
  shows "main upd lc portsData categoriesData userstylesData readme_file =
          (case categorized lc (merged_ports ps us) of
             Inl e \<Rightarrow> \<lparr>uncaught = Some e, effects = []\<rparr>
           | Inr cz \<Rightarrow>
               (case readme_file of
                  Inl e \<Rightarrow> \<lparr>uncaught = Some e, effects = []\<rparr>
                | Inr content \<Rightarrow>
                    (case portContent cats cz of
                       Inl e \<Rightarrow> \<lparr>uncaught = Some e, effects = []\<rparr>
                     | Inr pc \<Rightarrow>
                         \<lparr>uncaught = None,
                          effects = trace (finally_block (catch_block
                            (try_block upd pc (showcaseContent (showcases portsData))
                               \<lparr>readmeContent = content, trace = []\<rparr>)))\<rparr>)))"
  using assms by (simp add: main_def Let_def split: sum.splits)

text \<open>
  C2, as the script behaves. When the ports collection, the categories collection or the
  userstyles collection is absent, the run ends with the error \<open>ports.yml is empty\<close>,
  whatever the other inputs are, and nothing is spliced, logged or written. When the
  three collections are present, with entries or without, the run goes on to merging
  and grouping.
\<close>

theorem absent_collection_aborts:
  "(ports portsData = None \<or> categoriesData = None \<or> userstyles userstylesData = None \<longrightarrow>
      main upd lc portsData categoriesData userstylesData readme_file =
        \<lparr>uncaught = Some (Error ''ports.yml is empty''), effects = []\<rparr>)
   \<and> (\<forall>ps cats us.
        ports portsData = Some ps \<and> categoriesData = Some cats
        \<and> userstyles userstylesData = Some us \<longrightarrow>
        main upd lc portsData categoriesData userstylesData readme_file =
          (case categorized lc (merged_ports ps us) of
             Inl e \<Rightarrow> \<lparr>uncaught = Some e, effects = []\<rparr>
           | Inr cz \<Rightarrow>
               (case readme_file of
                  Inl e \<Rightarrow> \<lparr>uncaught = Some e, effects = []\<rparr>
                | Inr content \<Rightarrow>
                    (case portContent cats cz of
                       Inl e \<Rightarrow> \<lparr>uncaught = Some e, effects = []\<rparr>
                     | Inr pc \<Rightarrow>
                         \<lparr>uncaught = None,
                          effects = trace (finally_block (catch_block
                            (try_block upd pc (showcaseContent (showcases portsData))
                               \<lparr>readmeContent = content, trace = []\<rparr>)))\<rparr>))))"
proof (intro conjI allI impI)
  assume "ports portsData = None \<or> categoriesData = None \<or> userstyles userstylesData = None"
  then show "main upd lc portsData categoriesData userstylesData readme_file =
        \<lparr>uncaught = Some (Error ''ports.yml is empty''), effects = []\<rparr>"
    by (auto simp: main_def)
next
  fix ps cats us
  assume "ports portsData = Some ps \<and> categoriesData = Some cats
        \<and> userstyles userstylesData = Some us"
  then show "main upd lc portsData categoriesData userstylesData readme_file =
          (case categorized lc (merged_ports ps us) of
             Inl e \<Rightarrow> \<lparr>uncaught = Some e, effects = []\<rparr>
           | Inr cz \<Rightarrow>
               (case readme_file of
                  Inl e \<Rightarrow> \<lparr>uncaught = Some e, effects = []\<rparr>
                | Inr content \<Rightarrow>
                    (case portContent cats cz of
                       Inl e \<Rightarrow> \<lparr>uncaught = Some e, effects = []\<rparr>
                     | Inr pc \<Rightarrow>
                         \<lparr>uncaught = None,
                          effects = trace (finally_block (catch_block
                            (try_block upd pc (showcaseContent (showcases portsData))
                               \<lparr>readmeContent = content, trace = []\<rparr>)))\<rparr>)))"
    by (simp add: main_guard_passed)
qed

theorem absent_collection_aborts_witness:
  "main (example_updateReadme []) compare_length
     \<lparr>ports = (None :: (string \<times> string Port) list option), showcases = None\<rparr>
     (Some []) \<lparr>userstyles = Some []\<rparr> (Inr ''doc'')
   = \<lparr>uncaught = Some (Error ''ports.yml is empty''), effects = []\<rparr>"
  using absent_collection_aborts
    [of "\<lparr>ports = (None :: (string \<times> string Port) list option), showcases = None\<rparr>"
        "Some []" "\<lparr>userstyles = Some []\<rparr>" "example_updateReadme []" compare_length "Inr ''doc''"]
  by simp

text \<open>
  C2 as stated fails: with a ports collection of no entries the run goes on and writes
  the README.
\<close>

theorem empty_ports_collection_runs:
  "main (example_updateReadme []) compare_length
     \<lparr>ports = Some ([] :: (string \<times> string Port) list), showcases = None\<rparr>
     (Some [\<lparr>key = ''a'', cname = ''Alpha'', emoji = ''^''\<rparr>])
     \<lparr>userstyles = Some []\<rparr> (Inr ''doc'')
   = \<lparr>uncaught = None,
      effects = [UpdateReadme ''portlist'', WriteTextFile ''doc<portlist>'']\<rparr>"
  by (simp add: object_defs merger_defs grouper_defs renderer_defs script_defs)

subsection \<open>The port list\<close>

lemma join_Cons: "join sep (x # xs) = (if xs = [] then x else x @ sep @ join sep xs)"
  by (cases xs) simp_all

lemma join_nonempty: "xs \<noteq> [] \<Longrightarrow> hd xs \<noteq> [] \<Longrightarrow> join sep xs \<noteq> []"
  by (cases xs) (simp_all add: join_Cons)

lemma map_throw_Inr: "map_throw (\<lambda>x. Inr (f x)) xs = Inr (map f xs)"
  by (induction xs) simp_all

text \<open>
  For categories with ordinary keys: the blocks of the categories with rows, in the
  order of the categories, joined by newlines. A category whose bucket is empty or
  absent contributes nothing.
\<close>

lemma portContent_ordinary_keys:
  assumes "\<forall>c \<in> set cats. key c \<notin> set Object_prototype_keys"
  shows "portContent cats cz =
           Inr (join newline
                  (map (\<lambda>c. ''<details open>'' @ newline @
                            ''<summary>'' @ emoji c @ '' '' @ cname c @ ''</summary>'' @ newline @
                            newline @
                            join newline
                              (map (\<lambda>r. ''- ['' @ name r @ '']('' @ to_string (url r) @ '')'')
                                 (bucket cz (key c))) @ newline @
                            newline @
                            ''</details>'')
                       (filter (\<lambda>c. bucket cz (key c) \<noteq> []) cats)))"
proof -
  let ?block = "\<lambda>c. ''<details open>'' @ newline @
                            ''<summary>'' @ emoji c @ '' '' @ cname c @ ''</summary>'' @ newline @
                            newline @
                            join newline
                              (map (\<lambda>r. ''- ['' @ name r @ '']('' @ to_string (url r) @ '')'')
                                 (bucket cz (key c))) @ newline @
                            newline @
                            ''</details>''"
  have g: "(case obj_get cz (key c) of Undefined \<Rightarrow> Own [] | v \<Rightarrow> v) = Own (bucket cz (key c))"
    if "key c \<notin> set Object_prototype_keys" for c
    using that by (simp add: obj_get_def bucket_def split: option.splits)
  from assms have p: "portListData cats cz = map (\<lambda>c. (c, Own (bucket cz (key c)))) cats"
    by (simp add: portListData_def g)
  have f: "filter (\<lambda>d. ports_length (snd d) \<noteq> Some 0) (map (\<lambda>c. (c, Own (bucket cz (key c)))) cats)
           = map (\<lambda>c. (c, Own (bucket cz (key c)))) (filter (\<lambda>c. bucket cz (key c) \<noteq> []) cats)"
    by (induction cats) (simp_all add: ports_length_def)
  have r: "(\<lambda>r. ''- ['' @ name r @ '']('' @ to_string (url r) @ '')'') = render_row"
    by (simp add: fun_eq_iff render_row_def)
  have b: "map_throw render_block (map (\<lambda>c. (c, Own (bucket cz (key c)))) xs) = Inr (map ?block xs)"
    for xs
    unfolding r by (induction xs) (simp_all add: render_block_def)
  show ?thesis
    unfolding portContent_def p f b by simp
qed

text \<open>
  C8 fails on the script for a category that has no bucket and whose key names a member
  of \<open>Object.prototype\<close> with a \<open>length\<close> other than 0: line 125 gets the inherited
  member in place of \<open>undefined\<close>, the filter of line 133 keeps the category, and
  \<open>data.ports.map\<close> of line 138 throws, where the category should be left out.
\<close>

theorem prototype_category_throws:
  "portContent [\<lparr>key = ''constructor'', cname = ''Builders'', emoji = ''*''\<rparr>,
                \<lparr>key = ''a'', cname = ''Alpha'', emoji = ''^''\<rparr>]
     [(''a'', [with_type port (example_port ''Be'' [''a''] (Some ''https://x'') None None)])]
   = Inl TypeError"
  by (simp add: object_defs renderer_defs)

subsection \<open>Splicing and writing\<close>

lemma effects_after_read:
  "trace (finally_block (catch_block (try_block upd pc sc \<lparr>readmeContent = content, trace = []\<rparr>))) =
     (case upd content pc ''portlist'' of
        Inl e \<Rightarrow> [UpdateReadme ''portlist'', ConsoleLog e, WriteTextFile content]
      | Inr d1 \<Rightarrow>
          if truthy sc then
            (case upd d1 (the sc) ''showcase'' of
               Inl e \<Rightarrow> [UpdateReadme ''portlist'', UpdateReadme ''showcase'', ConsoleLog e,
                         WriteTextFile d1]
             | Inr d2 \<Rightarrow> [UpdateReadme ''portlist'', UpdateReadme ''showcase'', WriteTextFile d2])
          else [UpdateReadme ''portlist'', WriteTextFile d1])"
  by (simp add: try_block_def catch_block_def finally_block_def assign_update_def called_def
      Let_def split: sum.splits)

lemma main_after_read:
  assumes "ports portsData = Some ps" and "categoriesData = Some cats"
    and "userstyles userstylesData = Some us"
    and "categorized lc (merged_ports ps us) = Inr cz"
    and "readme_file = Inr content"
    and "portContent cats cz = Inr pc"
  shows "main upd lc portsData categoriesData userstylesData readme_file =
     \<lparr>uncaught = None,
      effects =
       (case upd content pc ''portlist'' of
        Inl e \<Rightarrow> [UpdateReadme ''portlist'', ConsoleLog e, WriteTextFile content]
      | Inr d1 \<Rightarrow>
          if truthy (showcaseContent (showcases portsData)) then
            (case upd d1 (the (showcaseContent (showcases portsData))) ''showcase'' of
               Inl e \<Rightarrow> [UpdateReadme ''portlist'', UpdateReadme ''showcase'', ConsoleLog e,
                         WriteTextFile d1]
             | Inr d2 \<Rightarrow> [UpdateReadme ''portlist'', UpdateReadme ''showcase'', WriteTextFile d2])
          else [UpdateReadme ''portlist'', WriteTextFile d1])\<rparr>"
  by (simp add: main_guard_passed [OF assms(1-3)] assms(4-6) effects_after_read)

lemma main_rendering_throws:
  assumes "ports portsData = Some ps" and "categoriesData = Some cats"
    and "userstyles userstylesData = Some us"
    and "categorized lc (merged_ports ps us) = Inr cz"
    and "readme_file = Inr content"
    and "portContent cats cz = Inl e"
  shows "main upd lc portsData categoriesData userstylesData readme_file =
     \<lparr>uncaught = Some e, effects = []\<rparr>"
  by (simp add: main_guard_passed [OF assms(1-3)] assms(4-6))

lemma truthy_showcaseContent:
  "truthy (showcaseContent s) \<longleftrightarrow> (\<exists>l. s = Some l \<and> l \<noteq> [])"
proof (cases s)
  case None
  then show ?thesis by (simp add: truthy_def showcaseContent_def)
next
  case (Some l)
  have "join newline (map render_showcase l) \<noteq> []" if "l \<noteq> []"
    using that by (intro join_nonempty) (simp_all add: render_showcase_def hd_map)
  with Some show ?thesis by (auto simp: truthy_def showcaseContent_def)
qed

lemma example_categorized:
  "categorized compare_length
     (merged_ports [(''p2'', example_port ''Be'' [''a''] (Some ''https://x'') None None)] [])
   = Inr [(''a'', [with_type port (example_port ''Be'' [''a''] (Some ''https://x'') None None)])]"
  by (simp add: object_defs merger_defs grouper_defs)

lemma example_portContent:
  "portContent [\<lparr>key = ''a'', cname = ''Alpha'', emoji = ''^''\<rparr>]
     [(''a'', [with_type port (example_port ''Be'' [''a''] (Some ''https://x'') None None)])]
   = Inr ''<details open>\<newline><summary>^ Alpha</summary>\<newline>\<newline>- [Be](https://x)\<newline>\<newline></details>''"
  by (simp add: object_defs merger_defs renderer_defs to_string_def)

text \<open>
  Once the port list is rendered, the run ends without an error and its last effect,
  and only write, is the write of the README, of the document after the splices that
  succeeded; an error thrown by a splice is logged before the write.
\<close>

lemma readme_written_after_rendering:
  assumes "ports portsData = Some ps" and "categoriesData = Some cats"
    and "userstyles userstylesData = Some us"
    and "categorized lc (merged_ports ps us) = Inr cz"
    and "readme_file = Inr content"
    and "portContent cats cz = Inr pc" and "sc = showcaseContent (showcases portsData)"
  shows "uncaught (main upd lc portsData categoriesData userstylesData readme_file) = None
     \<and> (\<exists>before doc.
           effects (main upd lc portsData categoriesData userstylesData readme_file)
             = before @ [WriteTextFile doc]
         \<and> (\<forall>d. WriteTextFile d \<notin> set before)
         \<and> doc = (case upd content pc ''portlist'' of
                    Inl e \<Rightarrow> content
                  | Inr d1 \<Rightarrow>
                      if truthy sc then
                        (case upd d1 (the sc) ''showcase'' of Inl e \<Rightarrow> d1 | Inr d2 \<Rightarrow> d2)
                      else d1)
         \<and> (\<forall>e. upd content pc ''portlist'' = Inl e \<longrightarrow> ConsoleLog e \<in> set before)
         \<and> (\<forall>d1 e. upd content pc ''portlist'' = Inr d1 \<and> truthy sc
                    \<and> upd d1 (the sc) ''showcase'' = Inl e \<longrightarrow> ConsoleLog e \<in> set before))"
proof -
  note m = main_after_read [OF assms(1-6), of upd, folded assms(7)]
  show ?thesis
  proof (cases "upd content pc ''portlist''")
    case (Inl e)
    show ?thesis
      by (simp add: m Inl)
  next
    case d1: (Inr d1)
    show ?thesis
    proof (cases "truthy sc")
      case False
      show ?thesis
        by (simp add: m d1 False)
    next
      case True
      show ?thesis
      proof (cases "upd d1 (the sc) ''showcase''")
        case (Inl e)
        show ?thesis
          by (simp add: m d1 True Inl)
      next
        case (Inr d2)
        show ?thesis
          by (simp add: m d1 True Inr)
      qed
    qed
  qed
qed

text \<open>
  C9 fails on the script for a category whose key names a member of \<open>Object.prototype\<close>
  (the defect of C8): the README is read (line 130), the rendering of the port list
  throws (line 138) before the \<open>try\<close> of line 150, and nothing is written.
\<close>

theorem prototype_category_prevents_write:
  "main (example_updateReadme []) compare_length
     \<lparr>ports = Some [(''p2'', example_port ''Be'' [''a''] (Some ''https://x'') None None)],
      showcases = None\<rparr>
     (Some [\<lparr>key = ''constructor'', cname = ''Builders'', emoji = ''*''\<rparr>,
            \<lparr>key = ''a'', cname = ''Alpha'', emoji = ''^''\<rparr>])
     \<lparr>userstyles = Some []\<rparr> (Inr ''doc'')
   = \<lparr>uncaught = Some TypeError, effects = []\<rparr>"
  by (simp add: object_defs merger_defs grouper_defs renderer_defs script_defs)

text \<open>
  C10. If the splice of the port list throws, the run calls \<open>updateReadme\<close> once, logs the
  error and writes back the content it read: the splice of the showcase is not attempted.
  A run that calls \<open>updateReadme\<close> for the showcase is one where the splice of the port
  list succeeded. When the showcases are absent or empty, \<open>updateReadme\<close> is not called
  for the showcase.
\<close>

theorem splices_share_one_try:
  assumes "ports portsData = Some ps" and "categoriesData = Some cats"
    and "userstyles userstylesData = Some us"
    and "categorized lc (merged_ports ps us) = Inr cz"
    and "readme_file = Inr content"
  shows "(\<forall>pc e. portContent cats cz = Inr pc \<and> upd content pc ''portlist'' = Inl e \<longrightarrow>
            effects (main upd lc portsData categoriesData userstylesData readme_file)
              = [UpdateReadme ''portlist'', ConsoleLog e, WriteTextFile content])
     \<and> (UpdateReadme ''showcase''
           \<in> set (effects (main upd lc portsData categoriesData userstylesData readme_file)) \<longrightarrow>
          (\<exists>pc d1. portContent cats cz = Inr pc \<and> upd content pc ''portlist'' = Inr d1))
     \<and> (showcases portsData = None \<or> showcases portsData = Some [] \<longrightarrow>
          UpdateReadme ''showcase''
           \<notin> set (effects (main upd lc portsData categoriesData userstylesData readme_file)))"
proof (cases "portContent cats cz")
  case (Inl e)
  from main_rendering_throws [OF assms Inl, of upd] Inl show ?thesis by simp
next
  case (Inr pc)
  note m = main_after_read [OF assms Inr, of upd]
  have t: "\<not> truthy (showcaseContent (showcases portsData))"
    if "showcases portsData = None \<or> showcases portsData = Some []"
    using that by (auto simp: truthy_showcaseContent)
  show ?thesis
  proof (intro conjI allI impI)
    fix pc' e assume "portContent cats cz = Inr pc' \<and> upd content pc' ''portlist'' = Inl e"
    with Inr have "upd content pc ''portlist'' = Inl e" by simp
    then show "effects (main upd lc portsData categoriesData userstylesData readme_file)
              = [UpdateReadme ''portlist'', ConsoleLog e, WriteTextFile content]"
      by (simp add: m)
  next
    assume "UpdateReadme ''showcase''
           \<in> set (effects (main upd lc portsData categoriesData userstylesData readme_file))"
    then have "\<exists>d1. upd content pc ''portlist'' = Inr d1"
      by (cases "upd content pc ''portlist''") (simp_all add: m)
    with Inr show "\<exists>pc d1. portContent cats cz = Inr pc \<and> upd content pc ''portlist'' = Inr d1"
      by simp
  next
    assume "showcases portsData = None \<or> showcases portsData = Some []"
    from t [OF this]
    show "UpdateReadme ''showcase''
           \<notin> set (effects (main upd lc portsData categoriesData userstylesData readme_file))"
      by (simp add: m split: sum.splits)
  qed
qed

theorem splices_share_one_try_witness:
  "main (example_updateReadme [''portlist'']) compare_length
     \<lparr>ports = Some [(''p2'', example_port ''Be'' [''a''] (Some ''https://x'') None None)],
      showcases = Some [\<lparr>title = ''T'', link = ''https://l'', description = ''D''\<rparr>]\<rparr>
     (Some [\<lparr>key = ''a'', cname = ''Alpha'', emoji = ''^''\<rparr>])
     \<lparr>userstyles = Some []\<rparr> (Inr ''README'')
   = \<lparr>uncaught = None,
      effects = [UpdateReadme ''portlist'', ConsoleLog (Error ''no section portlist''),
                 WriteTextFile ''README'']\<rparr>"
proof -
  let ?pd = "\<lparr>ports = Some [(''p2'', example_port ''Be'' [''a''] (Some ''https://x'') None None)],
      showcases = Some [\<lparr>title = ''T'', link = ''https://l'', description = ''D''\<rparr>]\<rparr>"
  have 1: "ports ?pd = Some [(''p2'', example_port ''Be'' [''a''] (Some ''https://x'') None None)]"
    by simp
  have 3: "userstyles \<lparr>userstyles = Some ([] :: (string \<times> string Port) list)\<rparr> = Some []"
    by simp
  from splices_share_one_try
    [OF 1 refl 3 example_categorized refl, where upd = "example_updateReadme [''portlist'']"]
  show ?thesis
    by (simp add: object_defs merger_defs grouper_defs renderer_defs script_defs)
qed

end
